theory Spec2Isabelle
  imports Complex_Main
begin

section \<open>The seed script of FactoryOS\<close>

text \<open>
  The repository is one Python script, \<^verbatim>\<open>scripts/seed-factory-data.py\<close>: a fixed
  sequence of HTTP requests against a running service, with console output. The
  embedding below follows the script top to bottom. The service and the clock are the
  environment of a run; everything the script does with their answers is a function
  of this theory.
\<close>

subsection \<open>JSON values as Python sees them\<close>

text \<open>
  \<^verbatim>\<open>json.loads\<close> returns \<^verbatim>\<open>None\<close>, a \<^verbatim>\<open>bool\<close>, an \<^verbatim>\<open>int\<close>, a \<^verbatim>\<open>float\<close>,
  a \<^verbatim>\<open>str\<close>, a \<^verbatim>\<open>list\<close> or a \<^verbatim>\<open>dict\<close> with string keys. A dictionary is an
  association list read with \<open>map_of\<close>. A float is the number it denotes (the script
  only ever tests a response value for truth, so nothing depends on rounding).
\<close>

datatype json =
    JNull
  | JBool bool
  | JInt int
  | JFloat real
  | JStr string
  | JList "json list"
  | JObj "(string \<times> json) list"

text \<open>The exceptions a run can meet, by their Python class.\<close>

datatype pyexc =
    AttributeError
  | TypeError
  | KeyError
  | ValueError
  | OverflowError
  | URLError

text \<open>Sequencing of computations that may raise: the first \<open>Inl\<close> wins.\<close>

definition and_then :: "'e + 'a \<Rightarrow> ('a \<Rightarrow> 'e + 'b) \<Rightarrow> 'e + 'b" where
  "and_then r f = (case r of Inl e \<Rightarrow> Inl e | Inr x \<Rightarrow> f x)"

text \<open>Python's truth value of an object (\<^verbatim>\<open>if x:\<close>, \<^verbatim>\<open>x or y\<close>, \<^verbatim>\<open>not x\<close>).\<close>

fun truthy :: "json \<Rightarrow> bool" where
  "truthy JNull = False"
| "truthy (JBool b) = b"
| "truthy (JInt i) = (i \<noteq> 0)"
| "truthy (JFloat r) = (r \<noteq> 0)"
| "truthy (JStr s) = (s \<noteq> [])"
| "truthy (JList xs) = (xs \<noteq> [])"
| "truthy (JObj kvs) = (kvs \<noteq> [])"

text \<open>\<^verbatim>\<open>x.get(key, default)\<close>: only a dictionary has the method.\<close>

fun dict_get :: "json \<Rightarrow> string \<Rightarrow> json \<Rightarrow> pyexc + json" where
  "dict_get (JObj kvs) k d = Inr (case map_of kvs k of Some v \<Rightarrow> v | None \<Rightarrow> d)"
| "dict_get _ k d = Inl AttributeError"

text \<open>\<^verbatim>\<open>x[key]\<close> with a string key.\<close>

fun subscript :: "json \<Rightarrow> string \<Rightarrow> pyexc + json" where
  "subscript (JObj kvs) k = (case map_of kvs k of Some v \<Rightarrow> Inr v | None \<Rightarrow> Inl KeyError)"
| "subscript _ k = Inl TypeError"

text \<open>\<^verbatim>\<open>needle in s\<close> on strings is the substring test.\<close>

fun contains :: "string \<Rightarrow> string \<Rightarrow> bool" where
  "contains [] needle = (needle = [])"
| "contains (c # cs) needle =
     (take (length needle) (c # cs) = needle \<or> contains cs needle)"

text \<open>
  \<^verbatim>\<open>needle in x\<close> for a string \<open>needle\<close>: substring of a string, element of a list,
  key of a dictionary; the other values are not iterable.
\<close>

fun py_in :: "string \<Rightarrow> json \<Rightarrow> pyexc + bool" where
  "py_in needle (JStr s) = Inr (contains s needle)"
| "py_in needle (JList xs) = Inr (JStr needle \<in> set xs)"
| "py_in needle (JObj kvs) = Inr (needle \<in> set (map fst kvs))"
| "py_in needle _ = Inl TypeError"

text \<open>\<^verbatim>\<open>s.lower()\<close>, on the letters A to Z.\<close>

definition lower_char :: "char \<Rightarrow> char" where
  "lower_char c =
     (case map_of (zip ''ABCDEFGHIJKLMNOPQRSTUVWXYZ'' ''abcdefghijklmnopqrstuvwxyz'') c of
        Some l \<Rightarrow> l
      | None \<Rightarrow> c)"

definition lower :: "string \<Rightarrow> string" where
  "lower s = map lower_char s"

fun py_lower :: "json \<Rightarrow> pyexc + string" where
  "py_lower (JStr s) = Inr (lower s)"
| "py_lower _ = Inl AttributeError"

text \<open>\<^verbatim>\<open>len(x)\<close>.\<close>

fun py_len :: "json \<Rightarrow> pyexc + nat" where
  "py_len (JStr s) = Inr (length s)"
| "py_len (JList xs) = Inr (length xs)"
| "py_len (JObj kvs) = Inr (length (remdups (map fst kvs)))"
| "py_len _ = Inl TypeError"

text \<open>\<^verbatim>\<open>for x in v\<close>: the items a loop over the value visits.\<close>

fun py_iter :: "json \<Rightarrow> pyexc + json list" where
  "py_iter (JStr s) = Inr (map (\<lambda>c. JStr [c]) s)"
| "py_iter (JList xs) = Inr xs"
| "py_iter (JObj kvs) = Inr (map JStr (remdups (map fst kvs)))"
| "py_iter _ = Inl TypeError"

text \<open>A dictionary key must be hashable: lists and dictionaries are not.\<close>

fun hashable :: "json \<Rightarrow> bool" where
  "hashable (JList xs) = False"
| "hashable (JObj kvs) = False"
| "hashable _ = True"

text \<open>\<^verbatim>\<open>str(n)\<close> of an integer, and zero padding to a width.\<close>

definition digit_char :: "nat \<Rightarrow> char" where
  "digit_char d = ''0123456789'' ! d"

fun digits :: "nat \<Rightarrow> string" where
  "digits n = (if n < 10 then [digit_char n] else digits (n div 10) @ [digit_char (n mod 10)])"

declare digits.simps [simp del]

definition str_int :: "int \<Rightarrow> string" where
  "str_int i = (if i < 0 then CHR ''-'' # digits (nat (- i)) else digits (nat i))"

definition zero_pad :: "nat \<Rightarrow> nat \<Rightarrow> string" where
  "zero_pad w n = replicate (w - length (digits n)) CHR ''0'' @ digits n"

text \<open>
  The format specification \<^verbatim>\<open>{x:Ns}\<close> of an f-string: a string is padded on the
  right to width \<open>N\<close>; a number has no presentation type \<open>s\<close> (ValueError), and
  \<^verbatim>\<open>None\<close>, lists and dictionaries take no format specification (TypeError).
\<close>

fun format_s :: "nat \<Rightarrow> json \<Rightarrow> pyexc + string" where
  "format_s w (JStr s) = Inr (s @ replicate (w - length s) CHR '' '')"
| "format_s w (JBool b) = Inl ValueError"
| "format_s w (JInt i) = Inl ValueError"
| "format_s w (JFloat r) = Inl ValueError"
| "format_s w _ = Inl TypeError"

subsection \<open>Console output and requests\<close>

text \<open>
  An f-string is kept as its parts: literal text (and the values of string and
  integer expressions of the script itself), a character outside ASCII by its code
  point, \<^verbatim>\<open>str()\<close> of a value that came from a response, and \<^verbatim>\<open>str()\<close> of a
  caught exception.
\<close>

datatype piece =
    Lit string
  | Uni nat
  | Val json
  | Exc pyexc

type_synonym fstring = "piece list"

text \<open>What \<^verbatim>\<open>api\<close> hands to \<^verbatim>\<open>urllib.request.Request\<close>.\<close>

record request =
  http_method :: string
  path :: fstring
  body :: "json option"
  authorization :: "json option"

text \<open>
  The observable events of a run, in order: the calls of \<^verbatim>\<open>header\<close>, \<^verbatim>\<open>ok\<close>
  (the green check-mark line) and \<^verbatim>\<open>fail\<close> (the red cross line), a bare
  \<^verbatim>\<open>print\<close>, and a request handed to \<^verbatim>\<open>urlopen\<close>.
\<close>

datatype event =
    Header fstring
  | Ok fstring
  | Fail fstring
  | Print fstring
  | Request request

subsection \<open>The environment: service and clock\<close>

text \<open>
  What \<^verbatim>\<open>urlopen\<close> and the reading of the answer can do: a 2xx answer whose body
  \<^verbatim>\<open>json.loads\<close> parses; a 2xx answer whose body does not decode or parse (a
  ValueError); an \<^verbatim>\<open>HTTPError\<close> with its status and body; any other failure to
  get an answer (\<^verbatim>\<open>URLError\<close> and the like).
\<close>

datatype err_body =
    NoBody
  | BodyText string
  | BodyUndecodable

datatype http_outcome =
    Success json
  | Malformed
  | HTTPError int err_body
  | Unreachable

text \<open>
  \<^verbatim>\<open>datetime.now()\<close>: the day as its proleptic Gregorian ordinal (day 1 is
  0001-01-01, as \<^verbatim>\<open>date.toordinal\<close>) and the microseconds since midnight.
\<close>

record datetime =
  ordinal :: nat
  usec :: nat

text \<open>
  The run is sequential and deterministic, so all it sees of its environment is the
  outcome of its n-th request and the value of its n-th reading of the clock.
\<close>

record env =
  server :: "nat \<Rightarrow> http_outcome"
  clock :: "nat \<Rightarrow> datetime"

subsection \<open>The helper \<^verbatim>\<open>api\<close>\<close>

definition BASE :: string where
  "BASE = ''http://localhost:4000''"

text \<open>The dictionary built in the \<^verbatim>\<open>except urllib.error.HTTPError\<close> branch.\<close>

definition http_failure :: "int \<Rightarrow> string \<Rightarrow> json" where
  "http_failure code body_text =
     JObj [(''success'', JBool False),
           (''error'', JStr (''HTTP '' @ str_int code @ '': '' @ take 200 body_text))]"

text \<open>
  The value \<^verbatim>\<open>api\<close> returns, or the exception it lets through. Only
  \<^verbatim>\<open>HTTPError\<close> is caught; in its handler \<^verbatim>\<open>e.read().decode()\<close> is evaluated
  when \<^verbatim>\<open>e.fp\<close> is set, and can raise in turn.
\<close>

fun api_result :: "http_outcome \<Rightarrow> pyexc + json" where
  "api_result (Success v) = Inr v"
| "api_result Malformed = Inl ValueError"
| "api_result (HTTPError code NoBody) = Inr (http_failure code [])"
| "api_result (HTTPError code (BodyText t)) = Inr (http_failure code t)"
| "api_result (HTTPError code BodyUndecodable) = Inl ValueError"
| "api_result Unreachable = Inl URLError"

subsection \<open>Dates\<close>

text \<open>
  \<^verbatim>\<open>datetime\<close> arithmetic goes through ordinals; the conversion of an ordinal to
  year, month and day is the one of the standard library (400-, 100-, 4- and 1-year
  cycles, then an estimate of the month that is corrected if too large).
\<close>

definition DAYS_IN_MONTH :: "nat list" where
  "DAYS_IN_MONTH = [0, 31, 28, 31, 30, 31, 30, 31, 31, 30, 31, 30, 31]"

definition DAYS_BEFORE_MONTH :: "nat list" where
  "DAYS_BEFORE_MONTH = [0, 0, 31, 59, 90, 120, 151, 181, 212, 243, 273, 304, 334]"

definition ord2ymd :: "nat \<Rightarrow> nat \<times> nat \<times> nat" where
  "ord2ymd n0 =
     (let n = n0 - 1;
          n400 = n div 146097; n = n mod 146097;
          n100 = n div 36524; n = n mod 36524;
          n4 = n div 1461; n = n mod 1461;
          n1 = n div 365; n = n mod 365;
          year = n400 * 400 + 1 + n100 * 100 + n4 * 4 + n1
      in if n1 = 4 \<or> n100 = 4 then (year - 1, 12, 31)
         else
           let leapyear = (n1 = 3 \<and> (n4 \<noteq> 24 \<or> n100 = 3));
               month = (n + 50) div 32;
               preceding = DAYS_BEFORE_MONTH ! month + (if month > 2 \<and> leapyear then 1 else 0)
           in if preceding > n
              then (let month' = month - 1;
                        preceding' = preceding -
                          (DAYS_IN_MONTH ! month' + (if month' = 2 \<and> leapyear then 1 else 0))
                    in (year, month', n - preceding' + 1))
              else (year, month, n - preceding + 1))"

text \<open>\<^verbatim>\<open>t - timedelta(days=d, microseconds=us)\<close>; a result before year 1 overflows.\<close>

definition minus_delta :: "datetime \<Rightarrow> nat \<Rightarrow> nat \<Rightarrow> pyexc + datetime" where
  "minus_delta t d us =
     (let total = int (ordinal t) * 86400000000 + int (usec t)
                    - int d * 86400000000 - int us
      in if total div 86400000000 < 1 then Inl OverflowError
         else Inr \<lparr>ordinal = nat (total div 86400000000),
                   usec = nat (total mod 86400000000)\<rparr>)"

definition hours :: "nat \<Rightarrow> nat" where
  "hours h = h * 3600000000"

definition minutes :: "nat \<Rightarrow> nat" where
  "minutes m = m * 60000000"

text \<open>\<^verbatim>\<open>t.strftime("%Y-%m-%d")\<close>, with the year on four digits.\<close>

definition strftime_ymd :: "datetime \<Rightarrow> string" where
  "strftime_ymd t =
     (case ord2ymd (ordinal t) of
        (y, m, d) \<Rightarrow> zero_pad 4 y @ ''-'' @ zero_pad 2 m @ ''-'' @ zero_pad 2 d)"

text \<open>\<^verbatim>\<open>t.isoformat()\<close>: the fraction is printed only when it is not zero.\<close>

definition isoformat :: "datetime \<Rightarrow> string" where
  "isoformat t =
     (let secs = usec t div 1000000; frac = usec t mod 1000000
      in strftime_ymd t @ ''T'' @ zero_pad 2 (secs div 3600) @ '':''
           @ zero_pad 2 (secs mod 3600 div 60) @ '':'' @ zero_pad 2 (secs mod 60)
           @ (if frac = 0 then [] else ''.'' @ zero_pad 6 frac))"

subsection \<open>The state of a run\<close>

text \<open>
  The global variables of the script that outlive one statement, the events so far,
  and how many requests and clock readings the run has made.
\<close>

record state =
  trace :: "event list"
  sent :: nat
  reads :: nat
  TOKEN :: json
  machine_map :: "json \<rightharpoonup> json"
  today :: string
  yesterday :: string
  two_days_ago :: string
  plan_ids :: "nat \<rightharpoonup> json"
  success_count :: int
  fail_count :: int

definition init :: state where
  "init = \<lparr>trace = [], sent = 0, reads = 0, TOKEN = JStr [], machine_map = Map.empty,
            today = [], yesterday = [], two_days_ago = [], plan_ids = Map.empty,
            success_count = 0, fail_count = 0\<rparr>"

text \<open>
  A run stops by \<^verbatim>\<open>sys.exit\<close> or by an exception nobody catches; both end the
  process with status 1, a run that reaches the last line ends with status 0.
\<close>

datatype stop =
    Exit int
  | Uncaught pyexc

type_synonym outcome = "(stop \<times> state) + state"

definition raise :: "pyexc \<Rightarrow> state \<Rightarrow> outcome" where
  "raise e s = Inl (Uncaught e, s)"

definition sys_exit :: "int \<Rightarrow> state \<Rightarrow> outcome" where
  "sys_exit n s = Inl (Exit n, s)"

definition emit :: "event \<Rightarrow> state \<Rightarrow> state" where
  "emit e s = s\<lparr>trace := trace s @ [e]\<rparr>"

definition header :: "fstring \<Rightarrow> state \<Rightarrow> state" where
  "header msg = emit (Header msg)"

definition ok :: "fstring \<Rightarrow> state \<Rightarrow> state" where
  "ok msg = emit (Ok msg)"

definition fail :: "fstring \<Rightarrow> state \<Rightarrow> state" where
  "fail msg = emit (Fail msg)"

definition print :: "fstring \<Rightarrow> state \<Rightarrow> state" where
  "print msg = emit (Print msg)"

text \<open>
  \<^verbatim>\<open>api(method, path, data, token)\<close>: the body is sent when \<^verbatim>\<open>data\<close> is true,
  the Authorization header when \<^verbatim>\<open>token\<close> is; \<open>JNull\<close> stands for the default
  \<^verbatim>\<open>None\<close> of both.
\<close>

definition api :: "env \<Rightarrow> string \<Rightarrow> fstring \<Rightarrow> json \<Rightarrow> json \<Rightarrow> state \<Rightarrow> (pyexc + json) \<times> state" where
  "api e m p data token s =
     (api_result (server e (sent s)),
      s\<lparr>trace := trace s @
           [Request \<lparr>http_method = m, path = p,
                     body = (if truthy data then Some data else None),
                     authorization = (if truthy token then Some token else None)\<rparr>],
        sent := Suc (sent s)\<rparr>)"

definition now :: "env \<Rightarrow> state \<Rightarrow> datetime \<times> state" where
  "now e s = (clock e (reads s), s\<lparr>reads := Suc (reads s)\<rparr>)"

text \<open>A \<^verbatim>\<open>for\<close> loop: the body runs on each item in turn until one stops the run.\<close>

fun for_each :: "('a \<Rightarrow> state \<Rightarrow> outcome) \<Rightarrow> 'a list \<Rightarrow> state \<Rightarrow> outcome" where
  "for_each step [] s = Inr s"
| "for_each step (x # xs) s =
     (case step x s of Inl h \<Rightarrow> Inl h | Inr s' \<Rightarrow> for_each step xs s')"

text \<open>A comprehension whose element expression may raise: the first exception wins.\<close>

fun collect :: "('a \<Rightarrow> pyexc + 'b) \<Rightarrow> 'a list \<Rightarrow> pyexc + 'b list" where
  "collect f [] = Inr []"
| "collect f (x # xs) = and_then (f x) (\<lambda>y. and_then (collect f xs) (\<lambda>ys. Inr (y # ys)))"

subsection \<open>0. Health check\<close>

text \<open>
  Everything inside the \<^verbatim>\<open>try\<close> block that raises an \<^verbatim>\<open>Exception\<close> ends in the
  handler; \<^verbatim>\<open>SystemExit\<close> is not one, so the \<^verbatim>\<open>sys.exit(1)\<close> of the block
  passes through it.
\<close>

definition health_verdict :: "json \<Rightarrow> pyexc + json option" where
  "health_verdict health =
     and_then (dict_get health ''success'' JNull) (\<lambda>flag.
       if truthy flag
       then and_then (dict_get health ''service'' (JStr ''unknown'')) (\<lambda>svc. Inr (Some svc))
       else Inr None)"

definition health_check :: "env \<Rightarrow> state \<Rightarrow> outcome" where
  "health_check e s0 =
     (let s1 = header [Lit ''0. HEALTH CHECK''] s0;
          (r, s2) = api e ''GET'' [Lit ''/api/health''] JNull JNull s1
      in case and_then r health_verdict of
           Inl x \<Rightarrow> sys_exit 1 (fail [Lit ''Cannot reach API on '', Lit BASE, Lit '': '', Exc x] s2)
         | Inr None \<Rightarrow> sys_exit 1 (fail [Lit ''API health check failed''] s2)
         | Inr (Some svc) \<Rightarrow>
             Inr (ok [Lit ''API is healthy '', Uni 8211, Lit '' '', Val svc] s2))"

subsection \<open>1. Login\<close>

definition login :: "env \<Rightarrow> state \<Rightarrow> outcome" where
  "login e s0 =
     (let s1 = header [Lit ''1. LOGIN AS ADMIN''] s0;
          (r, s2) = api e ''POST'' [Lit ''/api/v1/auth/login'']
                      (JObj [(''username'', JStr ''admin''), (''password'', JStr ''admin123'')])
                      JNull s1
      in case and_then r (\<lambda>login_resp.
                and_then (dict_get login_resp ''token'' JNull) (\<lambda>t. Inr (login_resp, t))) of
           Inl x \<Rightarrow> raise x s2
         | Inr (login_resp, t) \<Rightarrow>
             if \<not> truthy t
             then sys_exit 1 (fail [Lit ''Login failed: '', Val login_resp] s2)
             else (case subscript login_resp ''token'' of
                     Inl x \<Rightarrow> raise x s2
                   | Inr tok \<Rightarrow>
                       (let s3 = s2\<lparr>TOKEN := tok\<rparr>
                        in (case py_len tok of
                              Inl x \<Rightarrow> raise x s3
                            | Inr n \<Rightarrow>
                                Inr (ok [Lit ''Logged in as admin (token: '',
                                         Lit (str_int (int n)), Lit '' chars)''] s3)))))"

subsection \<open>2. Users\<close>

record user =
  username :: string
  password :: string
  full_name :: string
  role :: string

definition user_json :: "user \<Rightarrow> json" where
  "user_json u =
     JObj [(''username'', JStr (username u)), (''password'', JStr (password u)),
           (''full_name'', JStr (full_name u)), (''role'', JStr (role u))]"

definition users :: "user list" where
  "users =
    [\<lparr>username = ''rajesh.kumar'', password = ''Pass@123'', full_name = ''Rajesh Kumar'', role = ''SUPERVISOR''\<rparr>,
     \<lparr>username = ''priya.sharma'', password = ''Pass@123'', full_name = ''Priya Sharma'', role = ''SUPERVISOR''\<rparr>,
     \<lparr>username = ''amit.patel'', password = ''Pass@123'', full_name = ''Amit Patel'', role = ''OPERATOR''\<rparr>,
     \<lparr>username = ''sunita.devi'', password = ''Pass@123'', full_name = ''Sunita Devi'', role = ''OPERATOR''\<rparr>,
     \<lparr>username = ''vikram.singh'', password = ''Pass@123'', full_name = ''Vikram Singh'', role = ''OPERATOR''\<rparr>,
     \<lparr>username = ''neha.gupta'', password = ''Pass@123'', full_name = ''Neha Gupta'', role = ''OPERATOR''\<rparr>,
     \<lparr>username = ''ravi.verma'', password = ''Pass@123'', full_name = ''Ravi Verma'', role = ''OPERATOR''\<rparr>,
     \<lparr>username = ''deepa.rani'', password = ''Pass@123'', full_name = ''Deepa Rani'', role = ''OPERATOR''\<rparr>]"

text \<open>
  The condition of the loop body:
  \<^verbatim>\<open>resp.get("success") or "already exists" in resp.get("error", "")\<close>.
\<close>

definition user_created :: "json \<Rightarrow> pyexc + bool" where
  "user_created resp =
     and_then (dict_get resp ''success'' JNull) (\<lambda>flag.
       if truthy flag then Inr True
       else and_then (dict_get resp ''error'' (JStr [])) (py_in ''already exists''))"

text \<open>The line the loop body prints for a response.\<close>

definition user_line :: "user \<Rightarrow> json \<Rightarrow> pyexc + event" where
  "user_line u resp =
     and_then (user_created resp) (\<lambda>created.
       if created
       then Inr (Ok [Lit ''Created '', Lit (lower (role u)), Lit '': '', Lit (full_name u)])
       else and_then (dict_get resp ''error'' (JStr ''unknown'')) (\<lambda>err.
              Inr (Fail [Lit (full_name u), Lit '': '', Val err])))"

definition create_user :: "env \<Rightarrow> user \<Rightarrow> state \<Rightarrow> outcome" where
  "create_user e u s0 =
     (let (r, s1) = api e ''POST'' [Lit ''/api/v1/auth/register''] (user_json u) (TOKEN s0) s0
      in case and_then r (user_line u) of
           Inl x \<Rightarrow> raise x s1
         | Inr line \<Rightarrow> Inr (emit line s1))"

definition create_users :: "env \<Rightarrow> state \<Rightarrow> outcome" where
  "create_users e s0 = for_each (create_user e) users (header [Lit ''2. CREATE USERS''] s0)"

subsection \<open>3. Machines\<close>

record machine =
  machine_code :: string
  machine_name :: string
  department :: string
  machine_type :: string
  status :: string

definition machine_json :: "machine \<Rightarrow> json" where
  "machine_json m =
     JObj [(''machine_code'', JStr (machine_code m)), (''machine_name'', JStr (machine_name m)),
           (''department'', JStr (department m)), (''machine_type'', JStr (machine_type m)),
           (''status'', JStr (status m))]"

definition machines :: "machine list" where
  "machines =
    [\<lparr>machine_code = ''CNC-001'', machine_name = ''CNC Lathe Alpha'', department = ''Machining'', machine_type = ''CNC Lathe'', status = ''ACTIVE''\<rparr>,
     \<lparr>machine_code = ''CNC-002'', machine_name = ''CNC Mill Beta'', department = ''Machining'', machine_type = ''CNC Mill'', status = ''ACTIVE''\<rparr>,
     \<lparr>machine_code = ''INJ-001'', machine_name = ''Injection Molder A'', department = ''Molding'', machine_type = ''Injection Molder'', status = ''ACTIVE''\<rparr>,
     \<lparr>machine_code = ''INJ-002'', machine_name = ''Injection Molder B'', department = ''Molding'', machine_type = ''Injection Molder'', status = ''ACTIVE''\<rparr>,
     \<lparr>machine_code = ''PRESS-001'', machine_name = ''Hydraulic Press 50T'', department = ''Pressing'', machine_type = ''Hydraulic Press'', status = ''ACTIVE''\<rparr>,
     \<lparr>machine_code = ''WELD-001'', machine_name = ''Robotic Welder R1'', department = ''Welding'', machine_type = ''Robotic Welder'', status = ''ACTIVE''\<rparr>,
     \<lparr>machine_code = ''PACK-001'', machine_name = ''Packaging Line 1'', department = ''Packaging'', machine_type = ''Packaging'', status = ''ACTIVE''\<rparr>,
     \<lparr>machine_code = ''GRIND-001'', machine_name = ''Surface Grinder G1'', department = ''Machining'', machine_type = ''Surface Grinder'', status = ''MAINTENANCE''\<rparr>]"

text \<open>
  The condition of the loop body:
  \<^verbatim>\<open>resp.get("success") or "already exists" in resp.get("error", "").lower()
  or "duplicate" in resp.get("error", "").lower()\<close>.
\<close>

definition machine_created :: "json \<Rightarrow> pyexc + bool" where
  "machine_created resp =
     and_then (dict_get resp ''success'' JNull) (\<lambda>flag.
       if truthy flag then Inr True
       else and_then (dict_get resp ''error'' (JStr [])) (\<lambda>err.
            and_then (py_lower err) (\<lambda>l.
              if contains l ''already exists'' then Inr True
              else and_then (dict_get resp ''error'' (JStr [])) (\<lambda>err'.
                   and_then (py_lower err') (\<lambda>l'. Inr (contains l' ''duplicate''))))))"

definition machine_line :: "machine \<Rightarrow> json \<Rightarrow> pyexc + event" where
  "machine_line m resp =
     and_then (machine_created resp) (\<lambda>created.
       if created
       then Inr (Ok [Lit ''Created: '', Lit (machine_code m), Lit '' ('',
                     Lit (machine_name m), Lit '')''])
       else and_then (dict_get resp ''error'' resp) (\<lambda>err.
              Inr (Fail [Lit (machine_code m), Lit '': '', Val err])))"

definition create_machine :: "env \<Rightarrow> machine \<Rightarrow> state \<Rightarrow> outcome" where
  "create_machine e m s0 =
     (let (r, s1) = api e ''POST'' [Lit ''/api/v1/machines''] (machine_json m) (TOKEN s0) s0
      in case and_then r (machine_line m) of
           Inl x \<Rightarrow> raise x s1
         | Inr line \<Rightarrow> Inr (emit line s1))"

definition create_machines :: "env \<Rightarrow> state \<Rightarrow> outcome" where
  "create_machines e s0 =
     for_each (create_machine e) machines (header [Lit ''3. CREATE MACHINES''] s0)"

subsection \<open>4. Shifts\<close>

text \<open>\<^verbatim>\<open>sep.join(xs)\<close>: every item must be a string.\<close>

fun strings_of :: "json list \<Rightarrow> pyexc + string list" where
  "strings_of [] = Inr []"
| "strings_of (JStr s # vs) = and_then (strings_of vs) (\<lambda>ss. Inr (s # ss))"
| "strings_of (_ # vs) = Inl TypeError"

fun join :: "string \<Rightarrow> string list \<Rightarrow> string" where
  "join sep [] = []"
| "join sep [s] = s"
| "join sep (s # ss) = s @ sep @ join sep ss"

definition shifts_line :: "json \<Rightarrow> pyexc + event" where
  "shifts_line shifts_resp =
     and_then (dict_get shifts_resp ''shifts'' (JList [])) (\<lambda>shifts.
     and_then (py_len shifts) (\<lambda>n.
     and_then (py_iter shifts) (\<lambda>items.
     and_then (collect (\<lambda>s. subscript s ''shift_name'') items) (\<lambda>names.
     and_then (strings_of names) (\<lambda>ss.
       Inr (Ok [Lit ''Shifts available: '', Lit (str_int (int n)), Lit '' ('',
                Lit (join '', '' ss), Lit '')'']))))))"

definition verify_shifts :: "env \<Rightarrow> state \<Rightarrow> outcome" where
  "verify_shifts e s0 =
     (let s1 = header [Lit ''4. VERIFY SHIFTS''] s0;
          (r, s2) = api e ''GET'' [Lit ''/api/v1/shifts''] JNull (TOKEN s1) s1
      in case and_then r shifts_line of
           Inl x \<Rightarrow> raise x s2
         | Inr line \<Rightarrow> Inr (emit line s2))"

subsection \<open>5. Production plans\<close>

text \<open>
  \<^verbatim>\<open>machine_map[m["machine_code"]] = m["machine_id"]\<close> for each item of the
  listing: the right-hand side is evaluated first, then the key, which must be
  hashable. A later item with the same code overwrites an earlier one.
\<close>

fun add_machines :: "json list \<Rightarrow> (json \<rightharpoonup> json) \<Rightarrow> pyexc + (json \<rightharpoonup> json)" where
  "add_machines [] mm = Inr mm"
| "add_machines (m # ms) mm =
     and_then (subscript m ''machine_id'') (\<lambda>mid.
     and_then (subscript m ''machine_code'') (\<lambda>code.
       if hashable code then add_machines ms (mm(code \<mapsto> mid)) else Inl TypeError))"

definition resolve_machines :: "json \<Rightarrow> pyexc + (json \<rightharpoonup> json)" where
  "resolve_machines machines_resp =
     and_then (dict_get machines_resp ''machines'' (JList [])) (\<lambda>listing.
     and_then (py_iter listing) (\<lambda>items. add_machines items Map.empty))"

text \<open>\<^verbatim>\<open>machine_map.get(code, fallback)\<close> and \<^verbatim>\<open>plan_ids.get(i)\<close>.\<close>

definition code_get :: "(json \<rightharpoonup> json) \<Rightarrow> string \<Rightarrow> int \<Rightarrow> json" where
  "code_get mm code fallback = (case mm (JStr code) of Some v \<Rightarrow> v | None \<Rightarrow> JInt fallback)"

definition ids_get :: "(nat \<rightharpoonup> json) \<Rightarrow> nat \<Rightarrow> json" where
  "ids_get pids i = (case pids i of Some v \<Rightarrow> v | None \<Rightarrow> JNull)"

record plan =
  machine_id :: json
  shift_id :: int
  product_name :: string
  product_code :: string
  target_quantity :: int
  plan_date :: string

definition plan_json :: "plan \<Rightarrow> json" where
  "plan_json p =
     JObj [(''machine_id'', machine_id p), (''shift_id'', JInt (shift_id p)),
           (''product_name'', JStr (product_name p)), (''product_code'', JStr (product_code p)),
           (''target_quantity'', JInt (target_quantity p)), (''plan_date'', JStr (plan_date p))]"

definition plans :: "(json \<rightharpoonup> json) \<Rightarrow> string \<Rightarrow> string \<Rightarrow> string \<Rightarrow> plan list" where
  "plans mm td yd tda =
    [\<lparr>machine_id = code_get mm ''CNC-001'' 1, shift_id = 1, product_name = ''Shaft Bearing Housing'', product_code = ''SBH-1001'', target_quantity = 500, plan_date = td\<rparr>,
     \<lparr>machine_id = code_get mm ''CNC-002'' 2, shift_id = 1, product_name = ''Gear Box Cover'', product_code = ''GBC-2002'', target_quantity = 300, plan_date = td\<rparr>,
     \<lparr>machine_id = code_get mm ''INJ-001'' 3, shift_id = 1, product_name = ''Plastic Housing Cap'', product_code = ''PHC-3001'', target_quantity = 1000, plan_date = td\<rparr>,
     \<lparr>machine_id = code_get mm ''INJ-002'' 4, shift_id = 1, product_name = ''Connector Shell'', product_code = ''CS-4001'', target_quantity = 800, plan_date = td\<rparr>,
     \<lparr>machine_id = code_get mm ''PRESS-001'' 5, shift_id = 1, product_name = ''Metal Bracket A'', product_code = ''MBA-5001'', target_quantity = 600, plan_date = td\<rparr>,
     \<lparr>machine_id = code_get mm ''WELD-001'' 6, shift_id = 1, product_name = ''Frame Assembly'', product_code = ''FA-6001'', target_quantity = 200, plan_date = td\<rparr>,
     \<lparr>machine_id = code_get mm ''PACK-001'' 7, shift_id = 1, product_name = ''Final Pack Unit'', product_code = ''FPU-7001'', target_quantity = 400, plan_date = td\<rparr>,
     \<lparr>machine_id = code_get mm ''CNC-001'' 1, shift_id = 2, product_name = ''Shaft Bearing Housing'', product_code = ''SBH-1001'', target_quantity = 450, plan_date = td\<rparr>,
     \<lparr>machine_id = code_get mm ''INJ-001'' 3, shift_id = 2, product_name = ''Valve Body'', product_code = ''VB-3002'', target_quantity = 750, plan_date = td\<rparr>,
     \<lparr>machine_id = code_get mm ''CNC-001'' 1, shift_id = 1, product_name = ''Shaft Bearing Housing'', product_code = ''SBH-1001'', target_quantity = 500, plan_date = yd\<rparr>,
     \<lparr>machine_id = code_get mm ''CNC-002'' 2, shift_id = 1, product_name = ''Gear Box Cover'', product_code = ''GBC-2002'', target_quantity = 300, plan_date = yd\<rparr>,
     \<lparr>machine_id = code_get mm ''INJ-001'' 3, shift_id = 1, product_name = ''Plastic Housing Cap'', product_code = ''PHC-3001'', target_quantity = 1000, plan_date = yd\<rparr>,
     \<lparr>machine_id = code_get mm ''CNC-001'' 1, shift_id = 1, product_name = ''Shaft Bearing Housing'', product_code = ''SBH-1001'', target_quantity = 500, plan_date = tda\<rparr>,
     \<lparr>machine_id = code_get mm ''PRESS-001'' 5, shift_id = 1, product_name = ''Metal Bracket A'', product_code = ''MBA-5001'', target_quantity = 600, plan_date = tda\<rparr>]"

text \<open>
  The three dates: each is computed from its own call of \<^verbatim>\<open>datetime.now()\<close>.
\<close>

definition compute_dates :: "env \<Rightarrow> state \<Rightarrow> outcome" where
  "compute_dates e s0 =
     (let (t0, s1) = now e s0;
          s2 = s1\<lparr>today := strftime_ymd t0\<rparr>;
          (t1, s3) = now e s2
      in case minus_delta t1 1 0 of
           Inl x \<Rightarrow> raise x s3
         | Inr y \<Rightarrow>
             (let s4 = s3\<lparr>yesterday := strftime_ymd y\<rparr>;
                  (t2, s5) = now e s4
              in (case minus_delta t2 2 0 of
                    Inl x \<Rightarrow> raise x s5
                  | Inr d \<Rightarrow> Inr (s5\<lparr>two_days_ago := strftime_ymd d\<rparr>))))"

text \<open>
  The body of the plan loop on a response: the identifier to collect (if the plan was
  created) and the line to print.
\<close>

definition plan_line :: "nat \<Rightarrow> plan \<Rightarrow> json \<Rightarrow> pyexc + (json option \<times> event)" where
  "plan_line i p resp =
     and_then (dict_get resp ''success'' JNull) (\<lambda>flag.
       if truthy flag
       then and_then (dict_get resp ''plan'' (JObj [])) (\<lambda>pl.
            and_then (dict_get pl ''plan_id'' (JInt (int i + 1))) (\<lambda>pid.
              Inr (Some pid,
                   Ok [Lit ''Plan '', Val pid, Lit '': '', Lit (product_name p), Lit '' ('',
                       Lit (str_int (target_quantity p)), Lit '' pcs, '', Lit (plan_date p),
                       Lit '')''])))
       else and_then (dict_get resp ''error'' resp) (\<lambda>err.
              Inr (None, Fail [Lit ''Plan '', Lit (str_int (int i)), Lit '': '', Val err])))"

definition create_plan :: "env \<Rightarrow> nat \<times> plan \<Rightarrow> state \<Rightarrow> outcome" where
  "create_plan e ip s0 =
     (let (r, s1) = api e ''POST'' [Lit ''/api/v1/plans''] (plan_json (snd ip)) (TOKEN s0) s0
      in case and_then r (plan_line (fst ip) (snd ip)) of
           Inl x \<Rightarrow> raise x s1
         | Inr (None, line) \<Rightarrow> Inr (emit line s1)
         | Inr (Some pid, line) \<Rightarrow>
             Inr (emit line (s1\<lparr>plan_ids := (plan_ids s1)(fst ip \<mapsto> pid)\<rparr>)))"

definition create_plans :: "env \<Rightarrow> state \<Rightarrow> outcome" where
  "create_plans e s0 =
     (let s1 = header [Lit ''5. CREATE PRODUCTION PLANS''] s0;
          (r, s2) = api e ''GET'' [Lit ''/api/v1/machines''] JNull (TOKEN s1) s1
      in case and_then r resolve_machines of
           Inl x \<Rightarrow> raise x s2
         | Inr mm \<Rightarrow>
             (case compute_dates e (s2\<lparr>machine_map := mm\<rparr>) of
                Inl h \<Rightarrow> Inl h
              | Inr s3 \<Rightarrow>
                  for_each (create_plan e)
                    (enumerate 0 (plans (machine_map s3) (today s3) (yesterday s3) (two_days_ago s3)))
                    (s3\<lparr>plan_ids := Map.empty\<rparr>)))"

subsection \<open>6. Plan statuses\<close>

definition patch_plan :: "env \<Rightarrow> string \<Rightarrow> nat \<Rightarrow> state \<Rightarrow> outcome" where
  "patch_plan e new_status i s0 =
     (let pid = ids_get (plan_ids s0) i
      in if truthy pid
         then (let (r, s1) = api e ''PATCH'' [Lit ''/api/v1/plans/'', Val pid]
                               (JObj [(''status'', JStr new_status)]) (TOKEN s0) s0
               in (case r of Inl x \<Rightarrow> raise x s1 | Inr resp \<Rightarrow> Inr s1))
         else Inr s0)"

definition set_plan_statuses :: "env \<Rightarrow> state \<Rightarrow> outcome" where
  "set_plan_statuses e s0 =
     (case for_each (patch_plan e ''IN_PROGRESS'') [0..<7]
             (header [Lit ''6. SET PLAN STATUSES''] s0) of
        Inl h \<Rightarrow> Inl h
      | Inr s1 \<Rightarrow>
          (case for_each (patch_plan e ''COMPLETED'') [9..<14]
                  (ok [Lit ''Plans 1-7 (today morning) '', Uni 8594, Lit '' IN_PROGRESS''] s1) of
             Inl h \<Rightarrow> Inl h
           | Inr s2 \<Rightarrow>
               Inr (ok [Lit ''Plans 10-14 (yesterday + 2 days ago) '', Uni 8594,
                        Lit '' COMPLETED''] s2)))"

subsection \<open>7. Production logs\<close>

record production_log =
  plan_id :: json
  log_machine_id :: json
  log_shift_id :: int
  quantity_produced :: int
  quantity_ok :: int
  quantity_rejected :: int
  hour_slot :: string

definition log_json :: "production_log \<Rightarrow> json" where
  "log_json l =
     JObj [(''plan_id'', plan_id l), (''machine_id'', log_machine_id l),
           (''shift_id'', JInt (log_shift_id l)),
           (''quantity_produced'', JInt (quantity_produced l)),
           (''quantity_ok'', JInt (quantity_ok l)),
           (''quantity_rejected'', JInt (quantity_rejected l)),
           (''hour_slot'', JStr (hour_slot l))]"

definition production_logs :: "(nat \<rightharpoonup> json) \<Rightarrow> (json \<rightharpoonup> json) \<Rightarrow> production_log list" where
  "production_logs pids mm =
    [\<lparr>plan_id = ids_get pids 0, log_machine_id = code_get mm ''CNC-001'' 1, log_shift_id = 1, quantity_produced = 120, quantity_ok = 118, quantity_rejected = 2, hour_slot = ''06:00-07:00''\<rparr>,
     \<lparr>plan_id = ids_get pids 0, log_machine_id = code_get mm ''CNC-001'' 1, log_shift_id = 1, quantity_produced = 110, quantity_ok = 107, quantity_rejected = 3, hour_slot = ''07:00-08:00''\<rparr>,
     \<lparr>plan_id = ids_get pids 0, log_machine_id = code_get mm ''CNC-001'' 1, log_shift_id = 1, quantity_produced = 90, quantity_ok = 88, quantity_rejected = 2, hour_slot = ''08:00-09:00''\<rparr>,
     \<lparr>plan_id = ids_get pids 1, log_machine_id = code_get mm ''CNC-002'' 2, log_shift_id = 1, quantity_produced = 95, quantity_ok = 92, quantity_rejected = 3, hour_slot = ''06:00-07:00''\<rparr>,
     \<lparr>plan_id = ids_get pids 1, log_machine_id = code_get mm ''CNC-002'' 2, log_shift_id = 1, quantity_produced = 85, quantity_ok = 82, quantity_rejected = 3, hour_slot = ''07:00-08:00''\<rparr>,
     \<lparr>plan_id = ids_get pids 2, log_machine_id = code_get mm ''INJ-001'' 3, log_shift_id = 1, quantity_produced = 200, quantity_ok = 195, quantity_rejected = 5, hour_slot = ''06:00-07:00''\<rparr>,
     \<lparr>plan_id = ids_get pids 2, log_machine_id = code_get mm ''INJ-001'' 3, log_shift_id = 1, quantity_produced = 220, quantity_ok = 215, quantity_rejected = 5, hour_slot = ''07:00-08:00''\<rparr>,
     \<lparr>plan_id = ids_get pids 2, log_machine_id = code_get mm ''INJ-001'' 3, log_shift_id = 1, quantity_produced = 230, quantity_ok = 225, quantity_rejected = 5, hour_slot = ''08:00-09:00''\<rparr>,
     \<lparr>plan_id = ids_get pids 3, log_machine_id = code_get mm ''INJ-002'' 4, log_shift_id = 1, quantity_produced = 180, quantity_ok = 176, quantity_rejected = 4, hour_slot = ''06:00-07:00''\<rparr>,
     \<lparr>plan_id = ids_get pids 3, log_machine_id = code_get mm ''INJ-002'' 4, log_shift_id = 1, quantity_produced = 170, quantity_ok = 166, quantity_rejected = 4, hour_slot = ''07:00-08:00''\<rparr>,
     \<lparr>plan_id = ids_get pids 3, log_machine_id = code_get mm ''INJ-002'' 4, log_shift_id = 1, quantity_produced = 170, quantity_ok = 166, quantity_rejected = 4, hour_slot = ''08:00-09:00''\<rparr>,
     \<lparr>plan_id = ids_get pids 4, log_machine_id = code_get mm ''PRESS-001'' 5, log_shift_id = 1, quantity_produced = 150, quantity_ok = 148, quantity_rejected = 2, hour_slot = ''06:00-07:00''\<rparr>,
     \<lparr>plan_id = ids_get pids 4, log_machine_id = code_get mm ''PRESS-001'' 5, log_shift_id = 1, quantity_produced = 140, quantity_ok = 137, quantity_rejected = 3, hour_slot = ''07:00-08:00''\<rparr>,
     \<lparr>plan_id = ids_get pids 4, log_machine_id = code_get mm ''PRESS-001'' 5, log_shift_id = 1, quantity_produced = 110, quantity_ok = 108, quantity_rejected = 2, hour_slot = ''08:00-09:00''\<rparr>,
     \<lparr>plan_id = ids_get pids 5, log_machine_id = code_get mm ''WELD-001'' 6, log_shift_id = 1, quantity_produced = 60, quantity_ok = 58, quantity_rejected = 2, hour_slot = ''06:00-07:00''\<rparr>,
     \<lparr>plan_id = ids_get pids 5, log_machine_id = code_get mm ''WELD-001'' 6, log_shift_id = 1, quantity_produced = 60, quantity_ok = 59, quantity_rejected = 1, hour_slot = ''07:00-08:00''\<rparr>,
     \<lparr>plan_id = ids_get pids 6, log_machine_id = code_get mm ''PACK-001'' 7, log_shift_id = 1, quantity_produced = 100, quantity_ok = 99, quantity_rejected = 1, hour_slot = ''06:00-07:00''\<rparr>,
     \<lparr>plan_id = ids_get pids 6, log_machine_id = code_get mm ''PACK-001'' 7, log_shift_id = 1, quantity_produced = 95, quantity_ok = 95, quantity_rejected = 0, hour_slot = ''07:00-08:00''\<rparr>,
     \<lparr>plan_id = ids_get pids 6, log_machine_id = code_get mm ''PACK-001'' 7, log_shift_id = 1, quantity_produced = 85, quantity_ok = 85, quantity_rejected = 0, hour_slot = ''08:00-09:00''\<rparr>,
     \<lparr>plan_id = ids_get pids 9, log_machine_id = code_get mm ''CNC-001'' 1, log_shift_id = 1, quantity_produced = 250, quantity_ok = 245, quantity_rejected = 5, hour_slot = ''06:00-10:00''\<rparr>,
     \<lparr>plan_id = ids_get pids 9, log_machine_id = code_get mm ''CNC-001'' 1, log_shift_id = 1, quantity_produced = 240, quantity_ok = 233, quantity_rejected = 7, hour_slot = ''10:00-14:00''\<rparr>,
     \<lparr>plan_id = ids_get pids 10, log_machine_id = code_get mm ''CNC-002'' 2, log_shift_id = 1, quantity_produced = 295, quantity_ok = 288, quantity_rejected = 7, hour_slot = ''06:00-14:00''\<rparr>,
     \<lparr>plan_id = ids_get pids 11, log_machine_id = code_get mm ''INJ-001'' 3, log_shift_id = 1, quantity_produced = 500, quantity_ok = 488, quantity_rejected = 12, hour_slot = ''06:00-10:00''\<rparr>,
     \<lparr>plan_id = ids_get pids 11, log_machine_id = code_get mm ''INJ-001'' 3, log_shift_id = 1, quantity_produced = 480, quantity_ok = 467, quantity_rejected = 13, hour_slot = ''10:00-14:00''\<rparr>,
     \<lparr>plan_id = ids_get pids 12, log_machine_id = code_get mm ''CNC-001'' 1, log_shift_id = 1, quantity_produced = 260, quantity_ok = 256, quantity_rejected = 4, hour_slot = ''06:00-10:00''\<rparr>,
     \<lparr>plan_id = ids_get pids 12, log_machine_id = code_get mm ''CNC-001'' 1, log_shift_id = 1, quantity_produced = 250, quantity_ok = 248, quantity_rejected = 2, hour_slot = ''10:00-14:00''\<rparr>,
     \<lparr>plan_id = ids_get pids 13, log_machine_id = code_get mm ''PRESS-001'' 5, log_shift_id = 1, quantity_produced = 300, quantity_ok = 295, quantity_rejected = 5, hour_slot = ''06:00-10:00''\<rparr>,
     \<lparr>plan_id = ids_get pids 13, log_machine_id = code_get mm ''PRESS-001'' 5, log_shift_id = 1, quantity_produced = 280, quantity_ok = 275, quantity_rejected = 5, hour_slot = ''10:00-14:00''\<rparr>]"

definition post_log :: "env \<Rightarrow> production_log \<Rightarrow> state \<Rightarrow> outcome" where
  "post_log e l s0 =
     (let (r, s1) = api e ''POST'' [Lit ''/api/v1/production-logs''] (log_json l) (TOKEN s0) s0
      in case and_then r (\<lambda>resp. dict_get resp ''success'' JNull) of
           Inl x \<Rightarrow> raise x s1
         | Inr flag \<Rightarrow>
             if truthy flag then Inr (s1\<lparr>success_count := success_count s1 + 1\<rparr>)
             else Inr (s1\<lparr>fail_count := fail_count s1 + 1\<rparr>))"

definition log_production :: "env \<Rightarrow> state \<Rightarrow> outcome" where
  "log_production e s0 =
     (let s1 = header [Lit ''7. LOG PRODUCTION DATA''] s0
      in case for_each (post_log e) (production_logs (plan_ids s1) (machine_map s1))
                (s1\<lparr>success_count := 0, fail_count := 0\<rparr>) of
           Inl h \<Rightarrow> Inl h
         | Inr s2 \<Rightarrow>
             Inr (ok [Lit ''Production logs: '', Lit (str_int (success_count s2)),
                      Lit '' created, '', Lit (str_int (fail_count s2)), Lit '' failed''] s2))"

subsection \<open>8. Downtime events\<close>

record downtime =
  dt_machine_id :: json
  reason :: string
  category :: string
  started_at :: string
  ended_at :: "string option"

definition downtime_json :: "downtime \<Rightarrow> json" where
  "downtime_json d =
     JObj ([(''machine_id'', dt_machine_id d), (''reason'', JStr (reason d)),
            (''category'', JStr (category d)), (''started_at'', JStr (started_at d))]
           @ (case ended_at d of None \<Rightarrow> [] | Some t \<Rightarrow> [(''ended_at'', JStr t)]))"

text \<open>\<^verbatim>\<open>(now - timedelta(...)).isoformat()\<close>.\<close>

definition ago :: "datetime \<Rightarrow> nat \<Rightarrow> pyexc + string" where
  "ago t us = and_then (minus_delta t 0 us) (\<lambda>t'. Inr (isoformat t'))"

definition downtime_events :: "(json \<rightharpoonup> json) \<Rightarrow> datetime \<Rightarrow> pyexc + downtime list" where
  "downtime_events mm t =
     and_then (ago t (hours 8)) (\<lambda>a8.
     and_then (ago t (hours 4)) (\<lambda>a4.
     and_then (ago t (hours 2)) (\<lambda>a2.
     and_then (ago t (hours 6)) (\<lambda>a6.
     and_then (ago t (hours 5)) (\<lambda>a5.
     and_then (ago t (hours 3)) (\<lambda>a3.
     and_then (ago t (hours 2 + minutes 30)) (\<lambda>a230.
       Inr [\<lparr>dt_machine_id = code_get mm ''GRIND-001'' 8,
              reason = ''Scheduled preventive maintenance - bearing replacement'',
              category = ''MAINTENANCE'', started_at = a8, ended_at = None\<rparr>,
            \<lparr>dt_machine_id = code_get mm ''CNC-002'' 2,
              reason = ''Tool breakage - carbide insert shattered'',
              category = ''BREAKDOWN'', started_at = a4, ended_at = Some a2\<rparr>,
            \<lparr>dt_machine_id = code_get mm ''INJ-002'' 4,
              reason = ''Material feed jam - hopper blockage'',
              category = ''MATERIAL'', started_at = a6, ended_at = Some a5\<rparr>,
            \<lparr>dt_machine_id = code_get mm ''WELD-001'' 6,
              reason = ''Calibration drift detected - recalibration performed'',
              category = ''QUALITY'', started_at = a3, ended_at = Some a230\<rparr>])))))))"

definition downtime_line :: "downtime \<Rightarrow> json \<Rightarrow> pyexc + event" where
  "downtime_line d resp =
     and_then (dict_get resp ''success'' JNull) (\<lambda>flag.
       if truthy flag
       then Inr (Ok [Lit ''Downtime: '', Lit (take 40 (reason d)), Lit ''... ('',
                     Lit (case ended_at d of
                            None \<Rightarrow> ''ongoing''
                          | Some t \<Rightarrow> if t = [] then ''ongoing'' else ''resolved''),
                     Lit '')''])
       else and_then (dict_get resp ''error'' resp) (\<lambda>err.
              Inr (Fail [Lit ''Downtime: '', Val err])))"

definition post_downtime :: "env \<Rightarrow> downtime \<Rightarrow> state \<Rightarrow> outcome" where
  "post_downtime e d s0 =
     (let (r, s1) = api e ''POST'' [Lit ''/api/v1/downtime''] (downtime_json d) (TOKEN s0) s0
      in case and_then r (downtime_line d) of
           Inl x \<Rightarrow> raise x s1
         | Inr line \<Rightarrow> Inr (emit line s1))"

definition log_downtime :: "env \<Rightarrow> state \<Rightarrow> outcome" where
  "log_downtime e s0 =
     (let s1 = header [Lit ''8. LOG DOWNTIME EVENTS''] s0;
          (t, s2) = now e s1
      in case downtime_events (machine_map s2) t of
           Inl x \<Rightarrow> raise x s2
         | Inr evs \<Rightarrow> for_each (post_downtime e) evs s2)"

subsection \<open>9. Dashboard\<close>

definition rule_line :: "nat \<Rightarrow> nat \<Rightarrow> fstring" where
  "rule_line n cp = replicate n (Uni cp)"

text \<open>One row of the summary: \<^verbatim>\<open>print(f"  label {d.get(key, 'N/A')}suffix")\<close>.\<close>

definition dash_row :: "json \<Rightarrow> string \<Rightarrow> string \<Rightarrow> string \<Rightarrow> state \<Rightarrow> outcome" where
  "dash_row d label k suffix s =
     (case dict_get d k (JStr ''N/A'') of
        Inl x \<Rightarrow> raise x s
      | Inr v \<Rightarrow> Inr (print [Lit label, Val v, Lit suffix] s))"

definition dash_rows :: "(string \<times> string \<times> string) list" where
  "dash_rows =
     [(''  Total Machines:    '', ''totalMachines'', []),
      (''  Active Machines:   '', ''activeMachines'', []),
      (''  Today Plans:       '', ''todayPlans'', []),
      (''  Today Produced:    '', ''todayProduced'', []),
      (''  Today Target:      '', ''todayTarget'', []),
      (''  Today OK:          '', ''todayOk'', []),
      (''  Today Rejected:    '', ''todayRejected'', []),
      (''  Rejection Rate:    '', ''rejectionRate'', ''%''),
      (''  Efficiency:        '', ''efficiency'', ''%''),
      (''  Downtime (min):    '', ''todayDowntimeMin'', [])]"

definition verification :: "env \<Rightarrow> state \<Rightarrow> outcome" where
  "verification e s0 =
     (let s1 = header [Lit ''9. DASHBOARD VERIFICATION''] s0;
          (r, s2) = api e ''GET'' [Lit ''/api/v1/dashboard''] JNull (TOKEN s1) s1
      in case and_then r (\<lambda>dash. dict_get dash ''dashboard'' (JObj [])) of
           Inl x \<Rightarrow> raise x s2
         | Inr d \<Rightarrow>
             (case for_each (\<lambda>row. dash_row d (fst row) (fst (snd row)) (snd (snd row)))
                     dash_rows (print (Lit ''  '' # rule_line 40 9472) s2) of
                Inl h \<Rightarrow> Inl h
              | Inr s3 \<Rightarrow> Inr (print (Lit ''  '' # rule_line 40 9472) s3)))"

subsection \<open>10. Reports, downtime logs, users\<close>

definition report_line :: "json \<Rightarrow> pyexc + event" where
  "report_line reports_daily =
     and_then (dict_get reports_daily ''success'' JNull) (\<lambda>flag.
     and_then (if truthy flag then Inr True
               else and_then (dict_get reports_daily ''report'' JNull) (\<lambda>rep. Inr (truthy rep)))
       (\<lambda>good.
          if good
          then and_then (dict_get reports_daily ''report'' (JList [])) (\<lambda>rep.
               and_then (py_len rep) (\<lambda>n.
                 Inr (Ok [Lit ''Daily report: '', Lit (str_int (int n)), Lit '' entries''])))
          else and_then (dict_get reports_daily ''error'' (JStr ''N/A'')) (\<lambda>err.
                 Inr (Fail [Lit ''Daily report: '', Val err]))))"

text \<open>\<^verbatim>\<open>ok(f"label{len(resp.get(key, []))}suffix")\<close>.\<close>

definition count_line :: "string \<Rightarrow> string \<Rightarrow> string \<Rightarrow> json \<Rightarrow> pyexc + event" where
  "count_line label k suffix resp =
     and_then (dict_get resp k (JList [])) (\<lambda>xs.
     and_then (py_len xs) (\<lambda>n. Inr (Ok [Lit label, Lit (str_int (int n)), Lit suffix])))"

definition fetch_and_report :: "env \<Rightarrow> string \<Rightarrow> (json \<Rightarrow> pyexc + event) \<Rightarrow> state \<Rightarrow> outcome" where
  "fetch_and_report e p line s0 =
     (let (r, s1) = api e ''GET'' [Lit p] JNull (TOKEN s0) s0
      in case and_then r line of
           Inl x \<Rightarrow> raise x s1
         | Inr ev \<Rightarrow> Inr (emit ev s1))"

definition reports :: "env \<Rightarrow> state \<Rightarrow> outcome" where
  "reports e s0 =
     (case fetch_and_report e ''/api/v1/reports/daily'' report_line
             (header [Lit ''10. REPORTS VERIFICATION''] s0) of
        Inl h \<Rightarrow> Inl h
      | Inr s1 \<Rightarrow>
          (case fetch_and_report e ''/api/v1/downtime''
                  (count_line ''Downtime logs: '' ''logs'' '' entries'') s1 of
             Inl h \<Rightarrow> Inl h
           | Inr s2 \<Rightarrow>
               fetch_and_report e ''/api/v1/auth/users''
                 (count_line ''Users: '' ''users'' '' total'') s2))"

subsection \<open>11. Feature flags and the closing lines\<close>

text \<open>
  The loop body evaluates \<^verbatim>\<open>f.get("api")\<close> for the (unused) colour and then
  prints one line whose first three fields carry a width.
\<close>

definition feature_line :: "json \<Rightarrow> pyexc + event" where
  "feature_line f =
     and_then (dict_get f ''api'' JNull) (\<lambda>a0.
     and_then (subscript f ''id'') (\<lambda>i.
     and_then (format_s 12 i) (\<lambda>i'.
     and_then (dict_get f ''api'' JNull) (\<lambda>a.
     and_then (format_s 8 a) (\<lambda>a'.
     and_then (dict_get f ''ui'' JNull) (\<lambda>u.
     and_then (format_s 8 u) (\<lambda>u'.
     and_then (dict_get f ''label'' (JStr [])) (\<lambda>l.
       Inr (Print [Lit ''  '', Lit i', Lit ''  api='', Lit a', Lit ''  ui='', Lit u',
                   Lit ''  '', Val l])))))))))"

definition print_feature :: "json \<Rightarrow> state \<Rightarrow> outcome" where
  "print_feature f s =
     (case feature_line f of Inl x \<Rightarrow> raise x s | Inr line \<Rightarrow> Inr (emit line s))"

definition feature_flags :: "env \<Rightarrow> state \<Rightarrow> outcome" where
  "feature_flags e s0 =
     (let s1 = header [Lit ''11. FEATURE FLAGS''] s0;
          (r, s2) = api e ''GET'' [Lit ''/api/v1/admin/features''] JNull (TOKEN s1) s1
      in case and_then r (\<lambda>features_resp.
                and_then (dict_get features_resp ''features'' (JList [])) py_iter) of
           Inl x \<Rightarrow> raise x s2
         | Inr fs \<Rightarrow> for_each print_feature fs s2)"

definition ESC :: string where
  "ESC = [CHR 0x1B]"

definition NL :: string where
  "NL = [CHR 0x0A]"

definition finish :: "env \<Rightarrow> state \<Rightarrow> outcome" where
  "finish e s0 =
     Inr (print []
         (print [Lit ''  API: http://localhost:4000/api/v1/...'']
         (print [Lit ''  Credentials: admin / admin123'']
         (print [Lit (NL @ ''  Login: http://localhost:8081'')]
         (print (rule_line 50 9552 @ [Lit (ESC @ ''[0m'')])
         (print [Lit ''  '', Uni 9989, Lit '' SEED DATA COMPLETE '', Uni 8211,
                 Lit '' FactoryOS is ready!'']
         (print (Lit (NL @ ESC @ ''[1;32m'') # rule_line 50 9552) s0)))))))"

subsection \<open>The whole run\<close>

definition phases :: "(env \<Rightarrow> state \<Rightarrow> outcome) list" where
  "phases =
     [health_check, login, create_users, create_machines, verify_shifts, create_plans,
      set_plan_statuses, log_production, log_downtime, verification, reports,
      feature_flags, finish]"

definition run_from :: "env \<Rightarrow> (env \<Rightarrow> state \<Rightarrow> outcome) list \<Rightarrow> state \<Rightarrow> outcome" where
  "run_from e ps s = for_each (\<lambda>phase. phase e) ps s"

definition run :: "env \<Rightarrow> outcome" where
  "run e = run_from e phases init"

text \<open>The exit status of the process, the events of a run and the requests among them.\<close>

fun exit_status :: "outcome \<Rightarrow> int" where
  "exit_status (Inl (Exit n, s)) = n"
| "exit_status (Inl (Uncaught x, s)) = 1"
| "exit_status (Inr s) = 0"

fun final_state :: "outcome \<Rightarrow> state" where
  "final_state (Inl (h, s)) = s"
| "final_state (Inr s) = s"

definition events :: "outcome \<Rightarrow> event list" where
  "events r = trace (final_state r)"

fun requests_of :: "event list \<Rightarrow> request list" where
  "requests_of [] = []"
| "requests_of (Request r # es) = r # requests_of es"
| "requests_of (_ # es) = requests_of es"

subsection \<open>Vocabulary of the properties\<close>

text \<open>
  A response reports success when \<^verbatim>\<open>api\<close> returns a dictionary whose
  \<^verbatim>\<open>success\<close> entry is true; this is the test \<^verbatim>\<open>resp.get("success")\<close> of the
  loops.
\<close>

definition reports_success :: "http_outcome \<Rightarrow> bool" where
  "reports_success out =
     (case and_then (api_result out) (\<lambda>resp. dict_get resp ''success'' JNull) of
        Inl x \<Rightarrow> False
      | Inr flag \<Rightarrow> truthy flag)"

text \<open>The request the log loop hands to \<^verbatim>\<open>api\<close> for a record.\<close>

definition log_request :: "json \<Rightarrow> production_log \<Rightarrow> request" where
  "log_request tok l =
     \<lparr>http_method = ''POST'', path = [Lit ''/api/v1/production-logs''],
      body = Some (log_json l), authorization = (if truthy tok then Some tok else None)\<rparr>"

text \<open>
  The plan index each of the 28 log records is authored against (the argument of
  \<^verbatim>\<open>plan_ids.get\<close> in lines 200 to 246).
\<close>

definition log_plan_index :: "nat list" where
  "log_plan_index =
     [0, 0, 0, 1, 1, 2, 2, 2, 3, 3, 3, 4, 4, 4, 5, 5, 6, 6, 6, 9, 9, 10, 11, 11, 12, 12, 13, 13]"

text \<open>
  The shape of a response that the script handles at every place it may arrive: a
  dictionary in which \<^verbatim>\<open>error\<close>, if present, is a string; the listings, if
  present, are lists (of dictionaries with the entries the script subscripts);
  \<^verbatim>\<open>plan\<close> and \<^verbatim>\<open>dashboard\<close>, if present, are dictionaries.
\<close>

fun is_str :: "json \<Rightarrow> bool" where
  "is_str (JStr s) = True"
| "is_str _ = False"

fun is_obj :: "json \<Rightarrow> bool" where
  "is_obj (JObj kvs) = True"
| "is_obj _ = False"

fun is_list_of :: "(json \<Rightarrow> bool) \<Rightarrow> json \<Rightarrow> bool" where
  "is_list_of P (JList xs) = list_all P xs"
| "is_list_of P _ = False"

definition absent_or :: "(json \<Rightarrow> bool) \<Rightarrow> (string \<times> json) list \<Rightarrow> string \<Rightarrow> bool" where
  "absent_or P kvs k = (case map_of kvs k of None \<Rightarrow> True | Some v \<Rightarrow> P v)"

fun shift_ok :: "json \<Rightarrow> bool" where
  "shift_ok (JObj kvs) = (case map_of kvs ''shift_name'' of Some v \<Rightarrow> is_str v | None \<Rightarrow> False)"
| "shift_ok _ = False"

fun machine_ok :: "json \<Rightarrow> bool" where
  "machine_ok (JObj kvs) =
     (map_of kvs ''machine_id'' \<noteq> None
      \<and> (case map_of kvs ''machine_code'' of Some c \<Rightarrow> hashable c | None \<Rightarrow> False))"
| "machine_ok _ = False"

fun feature_ok :: "json \<Rightarrow> bool" where
  "feature_ok (JObj kvs) =
     ((case map_of kvs ''id'' of Some v \<Rightarrow> is_str v | None \<Rightarrow> False)
      \<and> (case map_of kvs ''api'' of Some v \<Rightarrow> is_str v | None \<Rightarrow> False)
      \<and> (case map_of kvs ''ui'' of Some v \<Rightarrow> is_str v | None \<Rightarrow> False))"
| "feature_ok _ = False"

fun well_formed :: "json \<Rightarrow> bool" where
  "well_formed (JObj kvs) =
     (absent_or is_str kvs ''error''
      \<and> absent_or (is_list_of shift_ok) kvs ''shifts''
      \<and> absent_or (is_list_of machine_ok) kvs ''machines''
      \<and> absent_or is_obj kvs ''plan''
      \<and> absent_or is_obj kvs ''dashboard''
      \<and> absent_or (is_list_of (\<lambda>v. True)) kvs ''report''
      \<and> absent_or (is_list_of (\<lambda>v. True)) kvs ''logs''
      \<and> absent_or (is_list_of (\<lambda>v. True)) kvs ''users''
      \<and> absent_or (is_list_of feature_ok) kvs ''features'')"
| "well_formed _ = False"

text \<open>An outcome is benign when \<^verbatim>\<open>api\<close> returns a response of that shape on it.\<close>

definition benign :: "http_outcome \<Rightarrow> bool" where
  "benign out = (case api_result out of Inl x \<Rightarrow> False | Inr v \<Rightarrow> well_formed v)"

section \<open>Properties\<close>

subsection \<open>HTTP errors in \<^verbatim>\<open>api\<close>\<close>

lemma http_failure_get_success [simp]:
  "dict_get (http_failure code t) ''success'' d = Inr (JBool False)"
  by (simp add: http_failure_def)

lemma http_failure_get_error [simp]:
  "dict_get (http_failure code t) ''error'' d =
     Inr (JStr (''HTTP '' @ str_int code @ '': '' @ take 200 t))"
  by (simp add: http_failure_def)

lemma http_failure_get_other [simp]:
  "k \<noteq> ''success'' \<Longrightarrow> k \<noteq> ''error'' \<Longrightarrow> dict_get (http_failure code t) k d = Inr d"
  by (simp add: http_failure_def)

text \<open>
  Claim C9, as stated, at an HTTP error whose body does not decode: the handler
  evaluates \<^verbatim>\<open>e.read().decode()\<close>, which raises, so \<^verbatim>\<open>api\<close> raises instead of
  returning a dictionary.
\<close>

theorem api_undecodable_error_body_raises:
  "fst (api \<lparr>server = (\<lambda>n. HTTPError 500 BodyUndecodable), clock = (\<lambda>n. \<lparr>ordinal = 1, usec = 0\<rparr>)\<rparr>
          ''GET'' [Lit ''/api/v1/shifts''] JNull JNull init) = Inl ValueError"
  by (simp add: api_def)

text \<open>
  Claim C9, amended: for every HTTP error status whose body is absent or decodes as
  text, \<^verbatim>\<open>api\<close> returns the dictionary with \<open>success\<close> false and the error string
  made of the status code and the first 200 characters of the body (at most 200 of
  them), whatever the request; and the bodies of the five per-item loops (users,
  machines, plans, production logs, downtime events) do not stop the run on it.
\<close>

theorem api_total_on_http_errors:
  "fst (api e m p d tok s) =
     (case server e (sent s) of
        HTTPError code NoBody \<Rightarrow>
          Inr (JObj [(''success'', JBool False),
                     (''error'', JStr (''HTTP '' @ str_int code @ '': ''))])
      | HTTPError code (BodyText t) \<Rightarrow>
          Inr (JObj [(''success'', JBool False),
                     (''error'', JStr (''HTTP '' @ str_int code @ '': '' @ take 200 t))])
      | other \<Rightarrow> fst (api e m p d tok s))
   \<and> length (take 200 t) \<le> 200
   \<and> (server e (sent s) = HTTPError code (BodyText t) \<or> server e (sent s) = HTTPError code NoBody
        \<longrightarrow> (\<exists>s'. create_user e u s = Inr s') \<and> (\<exists>s'. create_machine e mc s = Inr s')
          \<and> (\<exists>s'. create_plan e ip s = Inr s') \<and> (\<exists>s'. post_log e l s = Inr s')
          \<and> (\<exists>s'. post_downtime e dt s = Inr s'))"
proof -
  have a: "fst (api e m p d tok s) = api_result (server e (sent s))"
    by (simp add: api_def)
  have first: "fst (api e m p d tok s) =
     (case server e (sent s) of
        HTTPError code NoBody \<Rightarrow>
          Inr (JObj [(''success'', JBool False),
                     (''error'', JStr (''HTTP '' @ str_int code @ '': ''))])
      | HTTPError code (BodyText t) \<Rightarrow>
          Inr (JObj [(''success'', JBool False),
                     (''error'', JStr (''HTTP '' @ str_int code @ '': '' @ take 200 t))])
      | other \<Rightarrow> fst (api e m p d tok s))"
    unfolding a by (simp add: http_failure_def split: http_outcome.splits err_body.splits)
  have loops: "(\<exists>s'. create_user e u s = Inr s') \<and> (\<exists>s'. create_machine e mc s = Inr s')
          \<and> (\<exists>s'. create_plan e ip s = Inr s') \<and> (\<exists>s'. post_log e l s = Inr s')
          \<and> (\<exists>s'. post_downtime e dt s = Inr s')"
    if "api_result (server e (sent s)) = Inr (http_failure code b)" for b
    using that
    by (simp add: create_user_def create_machine_def create_plan_def post_log_def
        post_downtime_def api_def and_then_def user_line_def user_created_def
        machine_line_def machine_created_def plan_line_def downtime_line_def)
  show ?thesis
    using first loops [of t] loops [of "[]"] by auto
qed

theorem api_total_on_http_errors_witness:
  "(\<exists>s'. create_user \<lparr>server = (\<lambda>n. HTTPError 409 (BodyText ''taken'')),
                        clock = (\<lambda>n. \<lparr>ordinal = 1, usec = 0\<rparr>)\<rparr> (hd users) init = Inr s')"
  using api_total_on_http_errors
    [where e = "\<lparr>server = (\<lambda>n. HTTPError 409 (BodyText ''taken'')),
                  clock = (\<lambda>n. \<lparr>ordinal = 1, usec = 0\<rparr>)\<rparr>"
       and s = init and code = 409 and t = "''taken''" and u = "hd users"]
  by simp

end
